theory Spec2Isabelle
  imports Complex_Main
begin

section \<open>Numbers\<close>

text \<open>
  The layout core computes with JavaScript numbers, which are IEEE 754 binary64
  values. A finite value is \<open>Num\<close> of the real it denotes, \<open>Num 0\<close> being the positive
  zero; the negative zero, the two infinities and NaN are constructors of their own.
  The result of an arithmetic operation on finite operands is the exact real result
  rounded to the nearest representable value, ties to the even significand, with
  overflow to an infinity and underflow through the subnormal range to a signed zero.
\<close>

datatype number = Num real | NegZero | PosInf | NegInf | NaN

fun is_inf :: "number \<Rightarrow> bool" where
  "is_inf PosInf = True"
| "is_inf NegInf = True"
| "is_inf _ = False"

fun is_zero :: "number \<Rightarrow> bool" where
  "is_zero (Num a) = (a = 0)"
| "is_zero NegZero = True"
| "is_zero _ = False"

text \<open>The sign bit, and the real a finite value denotes.\<close>

fun is_neg :: "number \<Rightarrow> bool" where
  "is_neg (Num a) = (a < 0)"
| "is_neg NegZero = True"
| "is_neg NegInf = True"
| "is_neg _ = False"

fun real_of :: "number \<Rightarrow> real" where
  "real_of (Num a) = a"
| "real_of _ = 0"

definition zero_of :: "bool \<Rightarrow> number" where
  "zero_of negative = (if negative then NegZero else Num 0)"

definition inf_of :: "bool \<Rightarrow> number" where
  "inf_of negative = (if negative then NegInf else PosInf)"

subsection \<open>Rounding to binary64\<close>

definition round_half_even :: "real \<Rightarrow> int" where
  "round_half_even y =
     (let f = \<lfloor>y\<rfloor>; d = y - of_int f
      in if d < 1 / 2 then f else if 1 / 2 < d then f + 1 else if even f then f else f + 1)"

text \<open>
  The binary exponent of a positive real: the \<open>e\<close> with \<open>2 ^ e \<le> m < 2 ^ (e + 1)\<close>,
  found by halving a value of at least 1 and by doubling a value below 1.
\<close>

function floor_log2_ge1 :: "real \<Rightarrow> int" where
  "floor_log2_ge1 m = (if m < 2 then 0 else 1 + floor_log2_ge1 (m / 2))"
  by auto
termination
proof (relation "measure (\<lambda>m. nat \<lceil>m\<rceil>)")
  show "wf (measure (\<lambda>m::real. nat \<lceil>m\<rceil>))" by simp
next
  fix m :: real
  assume "\<not> m < 2"
  then have "m / 2 \<le> of_int \<lceil>m\<rceil> - 1" "2 \<le> \<lceil>m\<rceil>"
    using le_of_int_ceiling [of m] by linarith+
  then have "\<lceil>m / 2\<rceil> < \<lceil>m\<rceil>" "0 < \<lceil>m\<rceil>"
    by (auto simp: ceiling_less_iff)
  then show "(m / 2, m) \<in> measure (\<lambda>m. nat \<lceil>m\<rceil>)" by simp
qed

function floor_log2_lt1 :: "real \<Rightarrow> int" where
  "floor_log2_lt1 m = (if 1 \<le> m \<or> m \<le> 0 then 0 else floor_log2_lt1 (2 * m) - 1)"
  by auto
termination
proof (relation "measure (\<lambda>m. nat \<lceil>1 / m\<rceil>)")
  show "wf (measure (\<lambda>m::real. nat \<lceil>1 / m\<rceil>))" by simp
next
  fix m :: real
  assume "\<not> (1 \<le> m \<or> m \<le> 0)"
  then have m: "0 < m" "m < 1" by auto
  define x where "x = 1 / m"
  have x: "1 < x" using m by (simp add: x_def)
  have h: "1 / (2 * m) = x / 2" by (simp add: x_def)
  have "2 \<le> \<lceil>x\<rceil>" using x by linarith
  then have "x / 2 \<le> of_int \<lceil>x\<rceil> - 1"
    using le_of_int_ceiling [of x] by linarith
  then have "\<lceil>x / 2\<rceil> < \<lceil>x\<rceil>" "0 < \<lceil>x\<rceil>"
    using \<open>2 \<le> \<lceil>x\<rceil>\<close> by (auto simp: ceiling_less_iff)
  then show "(2 * m, m) \<in> measure (\<lambda>m. nat \<lceil>1 / m\<rceil>)"
    by (simp add: h x_def [symmetric])
qed

declare floor_log2_ge1.simps [simp del] floor_log2_lt1.simps [simp del]

text \<open>
  \<open>round64 r\<close>: the binary64 value nearest to the real \<open>r\<close>. With \<open>e\<close> the exponent
  of \<open>\<bar>r\<bar>\<close>, at least \<open>-1022\<close>, the representable values around \<open>\<bar>r\<bar>\<close> are the
  multiples of \<open>2 ^ (e - 52)\<close>; a result of \<open>2 ^ 1024\<close> or more is an infinity.
\<close>

definition round64 :: "real \<Rightarrow> number" where
  "round64 r =
     (let m = \<bar>r\<bar> in
      if 2 ^ 1024 \<le> m then inf_of (r < 0)
      else
        let e = (if m < 1 / 2 ^ 1022 then - 1022
                 else if m < 1 then floor_log2_lt1 m
                 else floor_log2_ge1 m);
            q = (if 52 \<le> e then 2 ^ nat (e - 52) else 1 / 2 ^ nat (52 - e));
            n = round_half_even (m / q);
            v = of_int n * q
        in if 2 ^ 1024 \<le> v then inf_of (r < 0)
           else if n = 0 then zero_of (r < 0)
           else Num (if r < 0 then - v else v))"

subsection \<open>The operators the source uses\<close>

fun js_neg :: "number \<Rightarrow> number" where
  "js_neg (Num a) = (if a = 0 then NegZero else Num (- a))"
| "js_neg NegZero = Num 0"
| "js_neg PosInf = NegInf"
| "js_neg NegInf = PosInf"
| "js_neg NaN = NaN"

text \<open>
  Addition: opposite infinities give NaN; an exact sum of zero is the negative zero
  only when both operands are negative zeros.
\<close>

definition js_add :: "number \<Rightarrow> number \<Rightarrow> number" where
  "js_add x y =
     (if x = NaN \<or> y = NaN then NaN
      else if is_inf x then (if is_inf y \<and> x \<noteq> y then NaN else x)
      else if is_inf y then y
      else let r = real_of x + real_of y
           in if r = 0 then zero_of (is_neg x \<and> is_neg y) else round64 r)"

definition js_sub :: "number \<Rightarrow> number \<Rightarrow> number" where
  "js_sub a b = js_add a (js_neg b)"

text \<open>Multiplication and division: the sign of the result is the exclusive or of the signs.\<close>

definition js_mul :: "number \<Rightarrow> number \<Rightarrow> number" where
  "js_mul x y =
     (if x = NaN \<or> y = NaN then NaN
      else if is_inf x \<or> is_inf y
        then (if is_zero x \<or> is_zero y then NaN else inf_of (is_neg x \<noteq> is_neg y))
      else let r = real_of x * real_of y
           in if r = 0 then zero_of (is_neg x \<noteq> is_neg y) else round64 r)"

definition js_div :: "number \<Rightarrow> number \<Rightarrow> number" where
  "js_div x y =
     (if x = NaN \<or> y = NaN then NaN
      else if is_inf x then (if is_inf y then NaN else inf_of (is_neg x \<noteq> is_neg y))
      else if is_inf y then zero_of (is_neg x \<noteq> is_neg y)
      else if is_zero y
        then (if is_zero x then NaN else inf_of (is_neg x \<noteq> is_neg y))
      else if is_zero x then zero_of (is_neg x \<noteq> is_neg y)
      else round64 (real_of x / real_of y))"

fun Math_abs :: "number \<Rightarrow> number" where
  "Math_abs (Num a) = Num \<bar>a\<bar>"
| "Math_abs NegZero = Num 0"
| "Math_abs PosInf = PosInf"
| "Math_abs NegInf = PosInf"
| "Math_abs NaN = NaN"

text \<open>
  Comparisons are exact. Every comparison with NaN is false, also \<open>NaN == NaN\<close>, and
  the two zeros are equal.
\<close>

definition js_le :: "number \<Rightarrow> number \<Rightarrow> bool" where
  "js_le x y =
     (x \<noteq> NaN \<and> y \<noteq> NaN \<and>
      (x = NegInf \<or> y = PosInf \<or> (\<not> is_inf x \<and> \<not> is_inf y \<and> real_of x \<le> real_of y)))"

definition js_lt :: "number \<Rightarrow> number \<Rightarrow> bool" where
  "js_lt x y =
     (x \<noteq> NaN \<and> y \<noteq> NaN \<and> x \<noteq> PosInf \<and> y \<noteq> NegInf \<and>
      (x = NegInf \<or> y = PosInf \<or> real_of x < real_of y))"

definition js_eq :: "number \<Rightarrow> number \<Rightarrow> bool" where
  "js_eq x y = (x \<noteq> NaN \<and> y \<noteq> NaN \<and> (x = y \<or> (is_zero x \<and> is_zero y)))"

definition js_ne :: "number \<Rightarrow> number \<Rightarrow> bool" where
  "js_ne a b = (\<not> js_eq a b)"

text \<open>
  \<open>Math.min\<close> and \<open>Math.max\<close> return NaN as soon as one argument is NaN, and take the
  positive zero to be larger than the negative one.
\<close>

definition Math_min :: "number \<Rightarrow> number \<Rightarrow> number" where
  "Math_min x y =
     (if x = NaN \<or> y = NaN then NaN
      else if js_lt x y then x
      else if js_lt y x then y
      else if x = NegZero then x else y)"

definition Math_max :: "number \<Rightarrow> number \<Rightarrow> number" where
  "Math_max x y =
     (if x = NaN \<or> y = NaN then NaN
      else if js_lt x y then y
      else if js_lt y x then x
      else if x = NegZero then y else x)"

section \<open>Data model\<close>

record Margin =
  left :: number
  top :: number
  right :: number
  bottom :: number

datatype SizingPolicy = SP_fixed | SP_fit | SP_min | SP_max

text \<open>
  \<open>BoxSizing\<close>: the optional members \<open>width\<close>, \<open>height\<close> and \<open>aspect\<close> are
  options; \<open>None\<close> stands for \<open>undefined\<close>, the one value the tests \<open>!= null\<close> of the
  source reject.
\<close>

record BoxSizing =
  width_policy :: SizingPolicy
  min_width :: number
  width :: "number option"
  max_width :: number
  height_policy :: SizingPolicy
  min_height :: number
  height :: "number option"
  max_height :: number
  aspect :: "number option"
  margin :: Margin

text \<open>\<open>Partial<BoxSizing>\<close>, the argument of \<open>set_sizing\<close>: every member may be absent.\<close>

record PartialBoxSizing =
  width_policy :: "SizingPolicy option"
  min_width :: "number option"
  width :: "number option"
  max_width :: "number option"
  height_policy :: "SizingPolicy option"
  min_height :: "number option"
  height :: "number option"
  max_height :: "number option"
  aspect :: "number option"
  margin :: "Margin option"

text \<open>\<open>Partial<Size>\<close>, the argument of \<open>compute\<close>.\<close>

record PartialSize =
  width :: "number option"
  height :: "number option"

record Size =
  width :: number
  height :: number

record SizeHint = Size +
  inner :: "Margin option"

text \<open>
  Modelled from the spec: the rectangle type \<open>BBox\<close> is imported by the source from
  \<open>../util/bbox\<close>, a module that is not among the sources modelled here. The specification treats it
  as an opaque immutable value that is constructed either from
  \<open>{left, top, width, height}\<close> or from \<open>{left, top, right, bottom}\<close>; a box is
  therefore the record of the constructor call that made it.
\<close>

datatype BBox =
  BBox_ltwh number number number number
| BBox_ltrb number number number number

datatype error = Unreachable | TypeError

text \<open>
  The element: its bounding box and its sizing. The field \<open>_sizing\<close> has no
  initialiser, so it is absent until \<open>set_sizing\<close> has run; reading a member of it
  before that raises a \<open>TypeError\<close>.
\<close>

record Layoutable =
  bbox :: BBox
  sizing :: "BoxSizing option"

definition new_Layoutable :: Layoutable where
  "new_Layoutable =
     \<lparr>bbox = BBox_ltwh (Num 0) (Num 0) (Num 0) (Num 0), sizing = None\<rparr>"

section \<open>Sizing\<close>

text \<open>The hook \<open>_init\<close> of the base class has an empty body.\<close>

definition protected_init :: "Layoutable \<Rightarrow> Layoutable" where
  "protected_init l = l"

definition set_sizing :: "PartialBoxSizing \<Rightarrow> Layoutable \<Rightarrow> Layoutable" where
  "set_sizing p l =
     protected_init (l\<lparr>sizing := Some
       \<lparr>BoxSizing.width_policy =
          (case PartialBoxSizing.width_policy p of Some q \<Rightarrow> q | None \<Rightarrow> SP_fit),
        BoxSizing.min_width =
          (case PartialBoxSizing.min_width p of Some x \<Rightarrow> x | None \<Rightarrow> Num 0),
        BoxSizing.width = PartialBoxSizing.width p,
        BoxSizing.max_width =
          (case PartialBoxSizing.max_width p of Some x \<Rightarrow> x | None \<Rightarrow> PosInf),
        BoxSizing.height_policy =
          (case PartialBoxSizing.height_policy p of Some q \<Rightarrow> q | None \<Rightarrow> SP_fit),
        BoxSizing.min_height =
          (case PartialBoxSizing.min_height p of Some x \<Rightarrow> x | None \<Rightarrow> Num 0),
        BoxSizing.height = PartialBoxSizing.height p,
        BoxSizing.max_height =
          (case PartialBoxSizing.max_height p of Some x \<Rightarrow> x | None \<Rightarrow> PosInf),
        BoxSizing.aspect = PartialBoxSizing.aspect p,
        BoxSizing.margin =
          (case PartialBoxSizing.margin p of
             Some mg \<Rightarrow> mg
           | None \<Rightarrow> \<lparr>left = Num 0, top = Num 0, right = Num 0, bottom = Num 0\<rparr>)\<rparr>\<rparr>)"

section \<open>Clamping\<close>

text \<open>
  The methods below read \<open>this.sizing\<close>; they take its value \<open>s\<close> as their first
  argument.
\<close>

definition clip_width :: "BoxSizing \<Rightarrow> number \<Rightarrow> number" where
  "clip_width s w = Math_max (BoxSizing.min_width s) (Math_min w (BoxSizing.max_width s))"

definition clip_height :: "BoxSizing \<Rightarrow> number \<Rightarrow> number" where
  "clip_height s h = Math_max (BoxSizing.min_height s) (Math_min h (BoxSizing.max_height s))"

definition clip_size :: "BoxSizing \<Rightarrow> Size \<Rightarrow> Size" where
  "clip_size s v =
     \<lparr>Size.width = clip_width s (Size.width v), Size.height = clip_height s (Size.height v)\<rparr>"

section \<open>Aspect reconciliation\<close>

definition apply_aspect :: "BoxSizing \<Rightarrow> Size \<Rightarrow> Size \<Rightarrow> error + Size" where
  "apply_aspect s viewport sz =
     (case BoxSizing.aspect s of
        None \<Rightarrow> Inr \<lparr>Size.width = Size.width sz, Size.height = Size.height sz\<rparr>
      | Some a \<Rightarrow>
          if BoxSizing.width_policy s \<noteq> SP_fixed \<and> BoxSizing.height_policy s \<noteq> SP_fixed then
            let w_width = Size.width sz;
                w_height = js_div (Size.width sz) a;
                h_width = js_mul (Size.height sz) a;
                h_height = Size.height sz;
                w_diff = js_add (Math_abs (js_sub (Size.width viewport) w_width))
                                (Math_abs (js_sub (Size.height viewport) w_height));
                h_diff = js_add (Math_abs (js_sub (Size.width viewport) h_width))
                                (Math_abs (js_sub (Size.height viewport) h_height))
            in if js_le w_diff h_diff
               then Inr \<lparr>Size.width = w_width, Size.height = w_height\<rparr>
               else Inr \<lparr>Size.width = h_width, Size.height = h_height\<rparr>
          else if BoxSizing.width_policy s \<noteq> SP_fixed then
            Inr \<lparr>Size.width = Size.width sz, Size.height = js_div (Size.width sz) a\<rparr>
          else if BoxSizing.height_policy s \<noteq> SP_fixed then
            Inr \<lparr>Size.width = js_mul (Size.height sz) a, Size.height = Size.height sz\<rparr>
          else Inl Unreachable)"

section \<open>Measurement\<close>

text \<open>
  The abstract hook \<open>_measure\<close> is a parameter \<open>m\<close> of type \<open>Size \<Rightarrow> SizeHint\<close>, as
  its signature declares it. \<open>measure_sizing s m\<close> is the body of \<open>measure\<close> on an
  element whose sizing is \<open>s\<close>.
\<close>

definition measure_sizing :: "BoxSizing \<Rightarrow> (Size \<Rightarrow> SizeHint) \<Rightarrow> Size \<Rightarrow> error + SizeHint" where
  "measure_sizing s m viewport =
     (let clipped0 = clip_size s viewport;
          clipped1 = (case BoxSizing.width s of
                        Some w \<Rightarrow> if BoxSizing.width_policy s = SP_fixed
                                  then clipped0\<lparr>Size.width := w\<rparr> else clipped0
                      | None \<Rightarrow> clipped0);
          clipped = (case BoxSizing.height s of
                       Some h \<Rightarrow> if BoxSizing.height_policy s = SP_fixed
                                 then clipped1\<lparr>Size.height := h\<rparr> else clipped1
                     | None \<Rightarrow> clipped1);
          computed = m clipped;
          w = (if BoxSizing.width_policy s = SP_fixed
               then (case BoxSizing.width s of Some x \<Rightarrow> x | None \<Rightarrow> Size.width computed)
               else Size.width computed);
          h = (if BoxSizing.height_policy s = SP_fixed
               then (case BoxSizing.height s of Some x \<Rightarrow> x | None \<Rightarrow> Size.height computed)
               else Size.height computed)
      in case apply_aspect s clipped \<lparr>Size.width = w, Size.height = h\<rparr> of
           Inl e \<Rightarrow> Inl e
         | Inr sz \<Rightarrow>
             Inr \<lparr>Size.width = Size.width sz, Size.height = Size.height sz,
                  inner = inner computed\<rparr>)"

definition measure_layout :: "(Size \<Rightarrow> SizeHint) \<Rightarrow> Layoutable \<Rightarrow> Size \<Rightarrow> error + SizeHint" where
  "measure_layout m l viewport =
     (case sizing l of
        None \<Rightarrow> Inl TypeError
      | Some s \<Rightarrow> measure_sizing s m viewport)"

text \<open>The reference leaf: \<open>LayoutItem._measure\<close>.\<close>

definition LayoutItem_measure :: "Size \<Rightarrow> SizeHint" where
  "LayoutItem_measure viewport =
     \<lparr>Size.width = (if js_ne (Size.width viewport) PosInf then Size.width viewport else Num 0),
      Size.height = (if js_ne (Size.height viewport) PosInf then Size.height viewport else Num 0),
      inner = None\<rparr>"

section \<open>Placement\<close>

text \<open>
  The hook \<open>_set_geometry\<close> is a parameter \<open>sg\<close> of \<open>set_geometry\<close> and of
  \<open>compute\<close>; \<open>protected_set_geometry\<close> is the one of the base class.
\<close>

definition protected_set_geometry :: "BBox \<Rightarrow> BBox \<Rightarrow> Layoutable \<Rightarrow> Layoutable" where
  "protected_set_geometry outer inner_box l = l\<lparr>bbox := outer\<rparr>"

definition set_geometry ::
  "(BBox \<Rightarrow> BBox \<Rightarrow> Layoutable \<Rightarrow> Layoutable) \<Rightarrow> BBox \<Rightarrow> BBox option \<Rightarrow> Layoutable \<Rightarrow> Layoutable" where
  "set_geometry sg outer inner_box l =
     sg outer (case inner_box of Some b \<Rightarrow> b | None \<Rightarrow> outer) l"

definition compute ::
  "(Size \<Rightarrow> SizeHint) \<Rightarrow> (BBox \<Rightarrow> BBox \<Rightarrow> Layoutable \<Rightarrow> Layoutable) \<Rightarrow>
     PartialSize option \<Rightarrow> Layoutable \<Rightarrow> error + Layoutable" where
  "compute m sg viewport l =
     (case measure_layout m l
        \<lparr>Size.width =
           (case viewport of
              Some v \<Rightarrow> (case PartialSize.width v of Some w \<Rightarrow> w | None \<Rightarrow> PosInf)
            | None \<Rightarrow> PosInf),
         Size.height =
           (case viewport of
              Some v \<Rightarrow> (case PartialSize.height v of Some h \<Rightarrow> h | None \<Rightarrow> PosInf)
            | None \<Rightarrow> PosInf)\<rparr> of
        Inl e \<Rightarrow> Inl e
      | Inr size_hint \<Rightarrow>
          let w = Size.width size_hint;
              h = Size.height size_hint;
              outer = BBox_ltwh (Num 0) (Num 0) w h;
              inner_box =
                (case inner size_hint of
                   None \<Rightarrow> None
                 | Some mg \<Rightarrow>
                     Some (BBox_ltrb (left mg) (top mg)
                             (js_sub w (right mg)) (js_sub h (bottom mg))))
          in Inr (set_geometry sg outer inner_box l))"

section \<open>The element as a state machine\<close>

text \<open>
  One call of a public method on an element: the state after the call and what the
  call gave back. A method that throws leaves the state as it was when the exception
  was raised. \<open>measure\<close> contains no assignment to a field of the element, and
  \<open>compute\<close> assigns only through \<open>set_geometry\<close>, after \<open>measure\<close> has returned.
\<close>

datatype call =
  Call_set_sizing PartialBoxSizing
| Call_set_geometry BBox "BBox option"
| Call_measure Size
| Call_compute "PartialSize option"

datatype outcome = Returned | Returned_hint SizeHint | Threw error

fun invoke :: "(Size \<Rightarrow> SizeHint) \<Rightarrow> call \<Rightarrow> Layoutable \<Rightarrow> Layoutable \<times> outcome" where
  "invoke m (Call_set_sizing p) l = (set_sizing p l, Returned)"
| "invoke m (Call_set_geometry outer inner_box) l =
     (set_geometry protected_set_geometry outer inner_box l, Returned)"
| "invoke m (Call_measure viewport) l =
     (l, case measure_layout m l viewport of Inl e \<Rightarrow> Threw e | Inr h \<Rightarrow> Returned_hint h)"
| "invoke m (Call_compute viewport) l =
     (case compute m protected_set_geometry viewport l of
        Inl e \<Rightarrow> (l, Threw e)
      | Inr l' \<Rightarrow> (l', Returned))"

section \<open>The element in a store of objects\<close>

text \<open>
  The same methods on a store, for the statements about what a call may change. Objects
  live at addresses, the indices of a list; an object literal of the source allocates
  the next address. An element and a viewport are passed by address. The hook
  \<open>_measure\<close> receives the element and the clipped viewport by address and may
  write to the store; so may the hook \<open>_init\<close>. What \<open>measure\<close> reads from
  \<open>this.sizing\<close> after the hook has returned is read from the store the hook left.
\<close>

datatype obj = Elem_obj Layoutable | Size_obj Size

type_synonym store = "obj list"

definition lookup :: "store \<Rightarrow> nat \<Rightarrow> obj option" where
  "lookup st a = (if a < length st then Some (st ! a) else None)"

definition alloc :: "obj \<Rightarrow> store \<Rightarrow> nat \<times> store" where
  "alloc ob st = (length st, st @ [ob])"

definition set_width :: "nat \<Rightarrow> number \<Rightarrow> store \<Rightarrow> store" where
  "set_width a w st =
     (case lookup st a of
        Some (Size_obj z) \<Rightarrow> st[a := Size_obj (z\<lparr>Size.width := w\<rparr>)]
      | _ \<Rightarrow> st)"

definition set_height :: "nat \<Rightarrow> number \<Rightarrow> store \<Rightarrow> store" where
  "set_height a h st =
     (case lookup st a of
        Some (Size_obj z) \<Rightarrow> st[a := Size_obj (z\<lparr>Size.height := h\<rparr>)]
      | _ \<Rightarrow> st)"

definition bbox_at :: "store \<Rightarrow> nat \<Rightarrow> BBox option" where
  "bbox_at st a = (case lookup st a of Some (Elem_obj l) \<Rightarrow> Some (bbox l) | _ \<Rightarrow> None)"

text \<open>
  The first lines of \<open>measure\<close>: \<open>clip_size\<close> returns a new object, the clipped
  viewport, and the two assignments that follow write to that object.
\<close>

definition alloc_clipped :: "BoxSizing \<Rightarrow> Size \<Rightarrow> store \<Rightarrow> nat \<times> store" where
  "alloc_clipped s viewport st =
     (case alloc (Size_obj (clip_size s viewport)) st of
        (c, st1) \<Rightarrow>
          let st2 = (case BoxSizing.width s of
                       Some w \<Rightarrow> if BoxSizing.width_policy s = SP_fixed
                                 then set_width c w st1 else st1
                     | None \<Rightarrow> st1);
              st3 = (case BoxSizing.height s of
                       Some h \<Rightarrow> if BoxSizing.height_policy s = SP_fixed
                                 then set_height c h st2 else st2
                     | None \<Rightarrow> st2)
          in (c, st3))"

text \<open>
  The rest of \<open>measure\<close>, from the return of the hook on: \<open>s\<close> is the sizing read
  before the hook ran, from which the two policies were taken, \<open>c\<close> the address of the
  clipped viewport, and the pair what the hook returned and the store it left.
\<close>

fun measure_after_hook ::
  "BoxSizing \<Rightarrow> nat \<Rightarrow> nat \<Rightarrow> SizeHint \<times> store \<Rightarrow> (error + SizeHint) \<times> store" where
  "measure_after_hook s this c (computed, st4) =
     (case lookup st4 this of
        Some (Elem_obj l4) \<Rightarrow>
          (case sizing l4 of
             None \<Rightarrow> (Inl TypeError, st4)
           | Some s4 \<Rightarrow>
               (case lookup st4 c of
                  Some (Size_obj clipped) \<Rightarrow>
                    let w = (if BoxSizing.width_policy s = SP_fixed
                             then (case BoxSizing.width s4 of
                                     Some x \<Rightarrow> x
                                   | None \<Rightarrow> Size.width computed)
                             else Size.width computed);
                        h = (if BoxSizing.height_policy s = SP_fixed
                             then (case BoxSizing.height s4 of
                                     Some x \<Rightarrow> x
                                   | None \<Rightarrow> Size.height computed)
                             else Size.height computed)
                    in (case apply_aspect s4 clipped \<lparr>Size.width = w, Size.height = h\<rparr> of
                          Inl e \<Rightarrow> (Inl e, st4)
                        | Inr sz \<Rightarrow>
                            (Inr \<lparr>Size.width = Size.width sz, Size.height = Size.height sz,
                                  inner = inner computed\<rparr>, st4))
                | _ \<Rightarrow> (Inl TypeError, st4)))
      | _ \<Rightarrow> (Inl TypeError, st4))"

definition measure_store ::
  "(nat \<Rightarrow> nat \<Rightarrow> store \<Rightarrow> SizeHint \<times> store) \<Rightarrow> nat \<Rightarrow> nat \<Rightarrow> store \<Rightarrow>
     (error + SizeHint) \<times> store" where
  "measure_store hook this vp st =
     (case lookup st this of
        Some (Elem_obj l) \<Rightarrow>
          (case sizing l of
             None \<Rightarrow> (Inl TypeError, st)
           | Some s \<Rightarrow>
               (case lookup st vp of
                  Some (Size_obj viewport) \<Rightarrow>
                    (case alloc_clipped s viewport st of
                       (c, st3) \<Rightarrow> measure_after_hook s this c (hook this c st3))
                | _ \<Rightarrow> (Inl TypeError, st)))
      | _ \<Rightarrow> (Inl TypeError, st))"

definition set_sizing_store ::
  "(nat \<Rightarrow> store \<Rightarrow> store) \<Rightarrow> nat \<Rightarrow> PartialBoxSizing \<Rightarrow> store \<Rightarrow> store" where
  "set_sizing_store init this p st =
     (case lookup st this of
        Some (Elem_obj l) \<Rightarrow> init this (st[this := Elem_obj (l\<lparr>sizing := sizing (set_sizing p l)\<rparr>)])
      | _ \<Rightarrow> st)"

definition set_geometry_store :: "nat \<Rightarrow> BBox \<Rightarrow> BBox option \<Rightarrow> store \<Rightarrow> store" where
  "set_geometry_store this outer inner_box st =
     (case lookup st this of
        Some (Elem_obj l) \<Rightarrow>
          st[this := Elem_obj (set_geometry protected_set_geometry outer inner_box l)]
      | _ \<Rightarrow> st)"

definition compute_store ::
  "(nat \<Rightarrow> nat \<Rightarrow> store \<Rightarrow> SizeHint \<times> store) \<Rightarrow> nat \<Rightarrow> PartialSize option \<Rightarrow> store \<Rightarrow>
     (error + unit) \<times> store" where
  "compute_store hook this viewport st =
     (case alloc (Size_obj
            \<lparr>Size.width =
               (case viewport of
                  Some p \<Rightarrow> (case PartialSize.width p of Some w \<Rightarrow> w | None \<Rightarrow> PosInf)
                | None \<Rightarrow> PosInf),
             Size.height =
               (case viewport of
                  Some p \<Rightarrow> (case PartialSize.height p of Some h \<Rightarrow> h | None \<Rightarrow> PosInf)
                | None \<Rightarrow> PosInf)\<rparr>) st of
        (v, st1) \<Rightarrow>
          (case measure_store hook this v st1 of
             (Inl e, st2) \<Rightarrow> (Inl e, st2)
           | (Inr size_hint, st2) \<Rightarrow>
               let w = Size.width size_hint;
                   h = Size.height size_hint;
                   outer = BBox_ltwh (Num 0) (Num 0) w h;
                   inner_box =
                     (case inner size_hint of
                        None \<Rightarrow> None
                      | Some mg \<Rightarrow>
                          Some (BBox_ltrb (left mg) (top mg)
                                  (js_sub w (right mg)) (js_sub h (bottom mg))))
               in (Inr (), set_geometry_store this outer inner_box st2)))"

datatype store_call =
  S_set_sizing PartialBoxSizing
| S_set_geometry BBox "BBox option"
| S_measure nat
| S_compute "PartialSize option"

fun invoke_store ::
  "(nat \<Rightarrow> nat \<Rightarrow> store \<Rightarrow> SizeHint \<times> store) \<Rightarrow> (nat \<Rightarrow> store \<Rightarrow> store) \<Rightarrow>
     nat \<Rightarrow> store_call \<Rightarrow> store \<Rightarrow> store" where
  "invoke_store hook init this (S_set_sizing p) st = set_sizing_store init this p st"
| "invoke_store hook init this (S_set_geometry outer inner_box) st =
     set_geometry_store this outer inner_box st"
| "invoke_store hook init this (S_measure vp) st = snd (measure_store hook this vp st)"
| "invoke_store hook init this (S_compute viewport) st =
     snd (compute_store hook this viewport st)"

text \<open>
  A hook that only reads the viewport it is given, like \<open>LayoutItem._measure\<close>, and the
  empty \<open>_init\<close> of the base class.
\<close>

definition reading_hook :: "(Size \<Rightarrow> SizeHint) \<Rightarrow> nat \<Rightarrow> nat \<Rightarrow> store \<Rightarrow> SizeHint \<times> store" where
  "reading_hook m this c st =
     (m (case lookup st c of
           Some (Size_obj v) \<Rightarrow> v
         | _ \<Rightarrow> \<lparr>Size.width = NaN, Size.height = NaN\<rparr>), st)"

definition init_store :: "nat \<Rightarrow> store \<Rightarrow> store" where
  "init_store this st = st"

section \<open>Reference configurations and the specification's wording\<close>

text \<open>The argument \<open>{}\<close> of \<open>set_sizing\<close>, and the sizing it produces.\<close>

definition empty_partial :: PartialBoxSizing where
  "empty_partial =
     \<lparr>PartialBoxSizing.width_policy = None, PartialBoxSizing.min_width = None,
      PartialBoxSizing.width = None, PartialBoxSizing.max_width = None,
      PartialBoxSizing.height_policy = None, PartialBoxSizing.min_height = None,
      PartialBoxSizing.height = None, PartialBoxSizing.max_height = None,
      PartialBoxSizing.aspect = None, PartialBoxSizing.margin = None\<rparr>"

definition default_sizing :: BoxSizing where
  "default_sizing =
     \<lparr>BoxSizing.width_policy = SP_fit, BoxSizing.min_width = Num 0,
      BoxSizing.width = None, BoxSizing.max_width = PosInf,
      BoxSizing.height_policy = SP_fit, BoxSizing.min_height = Num 0,
      BoxSizing.height = None, BoxSizing.max_height = PosInf,
      BoxSizing.aspect = None,
      BoxSizing.margin = \<lparr>left = Num 0, top = Num 0, right = Num 0, bottom = Num 0\<rparr>\<rparr>"

text \<open>
  Steps 2 and 4 of the specification of \<open>measure\<close>, in its words: the working
  viewport takes the explicit value on an axis whose policy is fixed and whose value is
  configured, and the clamped dimension otherwise; the final dimension of an axis is
  the explicit value if the policy is fixed and the value present, and the measured
  value for every other case.
\<close>

definition spec_working_dimension :: "SizingPolicy \<Rightarrow> number option \<Rightarrow> number \<Rightarrow> number" where
  "spec_working_dimension policy explicit clipped =
     (case (policy, explicit) of (SP_fixed, Some x) \<Rightarrow> x | _ \<Rightarrow> clipped)"

definition spec_working_viewport :: "BoxSizing \<Rightarrow> Size \<Rightarrow> Size" where
  "spec_working_viewport s viewport =
     \<lparr>Size.width = spec_working_dimension (BoxSizing.width_policy s) (BoxSizing.width s)
                     (clip_width s (Size.width viewport)),
      Size.height = spec_working_dimension (BoxSizing.height_policy s) (BoxSizing.height s)
                      (clip_height s (Size.height viewport))\<rparr>"

definition spec_final_dimension :: "SizingPolicy \<Rightarrow> number option \<Rightarrow> number \<Rightarrow> number" where
  "spec_final_dimension policy explicit measured =
     (case policy of
        SP_fixed \<Rightarrow> (case explicit of Some x \<Rightarrow> x | None \<Rightarrow> measured)
      | SP_fit \<Rightarrow> measured
      | SP_min \<Rightarrow> measured
      | SP_max \<Rightarrow> measured)"

definition spec_final_size :: "BoxSizing \<Rightarrow> SizeHint \<Rightarrow> Size" where
  "spec_final_size s computed =
     \<lparr>Size.width = spec_final_dimension (BoxSizing.width_policy s) (BoxSizing.width s)
                     (Size.width computed),
      Size.height = spec_final_dimension (BoxSizing.height_policy s) (BoxSizing.height s)
                      (Size.height computed)\<rparr>"

text \<open>
  Two hooks for examples: a content measurement that fills the viewport and reports an
  inner margin, and a placement that keeps the inner box instead of the outer one.
\<close>

definition margin_hook :: "Size \<Rightarrow> SizeHint" where
  "margin_hook viewport =
     \<lparr>Size.width = Size.width viewport, Size.height = Size.height viewport,
      inner = Some \<lparr>left = Num 5, top = Num 6, right = Num 7, bottom = Num 8\<rparr>\<rparr>"

definition store_inner :: "BBox \<Rightarrow> BBox \<Rightarrow> Layoutable \<Rightarrow> Layoutable" where
  "store_inner outer inner_box l = l\<lparr>bbox := inner_box\<rparr>"

text \<open>The default sizing with both axes clamped to the range from \<open>lo\<close> to \<open>hi\<close>.\<close>

definition range_sizing :: "number \<Rightarrow> number \<Rightarrow> BoxSizing" where
  "range_sizing lo hi =
     default_sizing\<lparr>BoxSizing.min_width := lo, BoxSizing.max_width := hi,
                    BoxSizing.min_height := lo, BoxSizing.max_height := hi\<rparr>"

text \<open>
  A store with an element whose width is fixed at 50, at address 0, and a viewport of 120
  by 40, at address 1.
\<close>

definition example_store :: store where
  "example_store =
     [Elem_obj (new_Layoutable\<lparr>sizing := Some
        (default_sizing\<lparr>BoxSizing.width_policy := SP_fixed,
           BoxSizing.width := Some (Num 50)\<rparr>)\<rparr>),
      Size_obj \<lparr>Size.width = Num 120, Size.height = Num 40\<rparr>]"

section \<open>Facts about numbers\<close>

lemmas cmp_defs = js_le_def js_lt_def js_eq_def

lemma js_lt_imp_le: "js_lt a b \<Longrightarrow> js_le a b"
  by (cases a; cases b) (auto simp: cmp_defs)

lemma js_lt_not_ge: "js_lt a b \<Longrightarrow> \<not> js_le b a"
  by (cases a; cases b) (auto simp: cmp_defs)

lemma js_eq_imp_le: "js_eq a b \<Longrightarrow> js_le a b"
  by (cases a; cases b) (auto simp: cmp_defs)

lemma clamp_inside:
  "js_le mn v \<Longrightarrow> js_le v mx \<Longrightarrow> js_eq (Math_max mn (Math_min v mx)) v"
  by (cases mn; cases v; cases mx) (auto simp: Math_min_def Math_max_def cmp_defs)

lemma clamp_inside_exact:
  "js_le mn v \<Longrightarrow> js_le v mx \<Longrightarrow> \<not> is_zero v \<Longrightarrow> Math_max mn (Math_min v mx) = v"
  by (cases mn; cases v; cases mx) (auto simp: Math_min_def Math_max_def cmp_defs)

lemma clamp_below: "js_lt v mn \<Longrightarrow> mx \<noteq> NaN \<Longrightarrow> Math_max mn (Math_min v mx) = mn"
  by (cases mn; cases v; cases mx) (auto simp: Math_min_def Math_max_def cmp_defs)

lemma clamp_above:
  "js_lt mx v \<Longrightarrow> js_le mn mx \<Longrightarrow> js_eq (Math_max mn (Math_min v mx)) mx"
  by (cases mn; cases v; cases mx) (auto simp: Math_min_def Math_max_def cmp_defs)

lemma clamp_above_exact:
  "js_lt mx v \<Longrightarrow> js_le mn mx \<Longrightarrow> \<not> is_zero mx \<Longrightarrow> Math_max mn (Math_min v mx) = mx"
  by (cases mn; cases v; cases mx) (auto simp: Math_min_def Math_max_def cmp_defs)

lemma clamp_inverted: "js_lt mx mn \<Longrightarrow> v \<noteq> NaN \<Longrightarrow> Math_max mn (Math_min v mx) = mn"
  by (cases mn; cases v; cases mx) (auto simp: Math_min_def Math_max_def cmp_defs)

text \<open>
  Rounded arithmetic at the values of the examples. The ratio
  \<open>3602879701896397 / 36028797018963968\<close> is the binary64 value nearest to one tenth.
\<close>

lemmas arith_defs = js_add_def js_sub_def js_mul_def js_div_def round64_def round_half_even_def
  zero_of_def inf_of_def floor_log2_ge1.simps floor_log2_lt1.simps Let_def

lemma arith_ratio_two:
  "js_div (Num 80) (Num 2) = Num 40"
  "js_mul (Num 80) (Num 2) = Num 160"
  "js_mul (Num 100) (Num 2) = Num 200"
  by (simp_all add: arith_defs)

lemma arith_tenth:
  "js_div (Num 1) (Num (3602879701896397 / 36028797018963968)) = Num 10"
  "js_mul (Num 100) (Num (3602879701896397 / 36028797018963968)) = Num 10"
  by (simp_all add: arith_defs)

lemma arith_differences:
  "js_sub (Num 100) (Num 80) = Num 20"
  "js_sub (Num 100) (Num 40) = Num 60"
  "js_sub (Num 100) (Num 160) = Num (- 60)"
  "js_sub (Num 160) (Num 80) = Num 80"
  "js_sub (Num 80) (Num 40) = Num 40"
  "js_sub (Num 160) (Num 160) = Num 0"
  "js_sub (Num 80) (Num 80) = Num 0"
  "js_sub (Num 90) (Num 80) = Num 10"
  "js_sub (Num 50) (Num 40) = Num 10"
  "js_sub (Num 90) (Num 160) = Num (- 70)"
  "js_sub (Num 50) (Num 80) = Num (- 30)"
  "js_sub (Num 20) (Num 1) = Num 19"
  "js_sub (Num 20) (Num 10) = Num 10"
  "js_sub (Num (101 / 2)) (Num 10) = Num (81 / 2)"
  "js_sub (Num (101 / 2)) (Num 100) = Num (- (99 / 2))"
  "js_sub (Num 120) (Num 7) = Num 113"
  "js_sub (Num 40) (Num 8) = Num 32"
  by (simp_all add: arith_defs)

lemma arith_sums:
  "js_add (Num 20) (Num 60) = Num 80"
  "js_add (Num 60) (Num 20) = Num 80"
  "js_add (Num 80) (Num 40) = Num 120"
  "js_add (Num 0) (Num 0) = Num 0"
  "js_add (Num 10) (Num 10) = Num 20"
  "js_add (Num 70) (Num 30) = Num 100"
  "js_add (Num 19) (Num (81 / 2)) = Num (119 / 2)"
  "js_add (Num 10) (Num (99 / 2)) = Num (119 / 2)"
  by (simp_all add: arith_defs)

lemmas arith_examples = arith_ratio_two arith_tenth arith_differences arith_sums

lemmas eval_defs = default_sizing_def clip_size_def clip_width_def clip_height_def
  Math_min_def Math_max_def LayoutItem_measure_def js_ne_def cmp_defs arith_examples
  apply_aspect_def measure_sizing_def measure_layout_def compute_def set_geometry_def
  protected_set_geometry_def new_Layoutable_def Let_def

section \<open>Aspect reconciliation: results\<close>

lemma apply_aspect_both_fixed:
  "BoxSizing.aspect s = Some a \<Longrightarrow> BoxSizing.width_policy s = SP_fixed \<Longrightarrow>
   BoxSizing.height_policy s = SP_fixed \<Longrightarrow> apply_aspect s v sz = Inl Unreachable"
  by (simp add: apply_aspect_def)

lemma apply_aspect_no_aspect:
  "BoxSizing.aspect s = None \<Longrightarrow> apply_aspect s v sz = Inr sz"
  by (simp add: apply_aspect_def)

lemma apply_aspect_returns:
  "\<not> (BoxSizing.width_policy s = SP_fixed \<and> BoxSizing.height_policy s = SP_fixed) \<Longrightarrow>
   \<exists>r. apply_aspect s v sz = Inr r"
  by (auto simp: apply_aspect_def Let_def split: option.splits)

lemma measure_sizing_unfold:
  "measure_sizing s m viewport =
     (case apply_aspect s (spec_working_viewport s viewport)
             (spec_final_size s (m (spec_working_viewport s viewport))) of
        Inl e \<Rightarrow> Inl e
      | Inr sz \<Rightarrow> Inr \<lparr>Size.width = Size.width sz, Size.height = Size.height sz,
                       inner = inner (m (spec_working_viewport s viewport))\<rparr>)"
  by (cases "BoxSizing.width_policy s"; cases "BoxSizing.height_policy s";
      cases "BoxSizing.width s"; cases "BoxSizing.height s")
     (simp_all add: measure_sizing_def Let_def spec_working_viewport_def spec_working_dimension_def
        spec_final_size_def spec_final_dimension_def clip_size_def split: sum.splits)

text \<open>
  C2. With an aspect ratio \<open>r\<close> configured and neither policy fixed, \<open>apply_aspect\<close>
  forms candidate A (the measured width, and the width divided by \<open>r\<close>) and candidate B
  (the height times \<open>r\<close>, and the measured height), takes for each the sum of the absolute
  differences of width and of height to the viewport, and returns the candidate whose
  distance is smaller, and candidate A when the two distances are equal.
\<close>

theorem apply_aspect_free_axes_nearest_candidate:
  assumes "BoxSizing.aspect s = Some r"
    and "BoxSizing.width_policy s \<noteq> SP_fixed"
    and "BoxSizing.height_policy s \<noteq> SP_fixed"
  shows "let A = \<lparr>Size.width = Size.width sz, Size.height = js_div (Size.width sz) r\<rparr>;
             B = \<lparr>Size.width = js_mul (Size.height sz) r, Size.height = Size.height sz\<rparr>;
             dA = js_add (Math_abs (js_sub (Size.width viewport) (Size.width A)))
                         (Math_abs (js_sub (Size.height viewport) (Size.height A)));
             dB = js_add (Math_abs (js_sub (Size.width viewport) (Size.width B)))
                         (Math_abs (js_sub (Size.height viewport) (Size.height B)))
         in (apply_aspect s viewport sz = Inr A \<or> apply_aspect s viewport sz = Inr B) \<and>
            (js_lt dA dB \<longrightarrow> apply_aspect s viewport sz = Inr A) \<and>
            (js_lt dB dA \<longrightarrow> apply_aspect s viewport sz = Inr B) \<and>
            (js_eq dA dB \<longrightarrow> apply_aspect s viewport sz = Inr A)"
proof -
  define A where "A = \<lparr>Size.width = Size.width sz, Size.height = js_div (Size.width sz) r\<rparr>"
  define B where "B = \<lparr>Size.width = js_mul (Size.height sz) r, Size.height = Size.height sz\<rparr>"
  define dA where "dA = js_add (Math_abs (js_sub (Size.width viewport) (Size.width A)))
                         (Math_abs (js_sub (Size.height viewport) (Size.height A)))"
  define dB where "dB = js_add (Math_abs (js_sub (Size.width viewport) (Size.width B)))
                         (Math_abs (js_sub (Size.height viewport) (Size.height B)))"
  have eq: "apply_aspect s viewport sz = (if js_le dA dB then Inr A else Inr B)"
    using assms by (simp add: apply_aspect_def Let_def A_def B_def dA_def dB_def)
  have "(apply_aspect s viewport sz = Inr A \<or> apply_aspect s viewport sz = Inr B) \<and>
        (js_lt dA dB \<longrightarrow> apply_aspect s viewport sz = Inr A) \<and>
        (js_lt dB dA \<longrightarrow> apply_aspect s viewport sz = Inr B) \<and>
        (js_eq dA dB \<longrightarrow> apply_aspect s viewport sz = Inr A)"
    unfolding eq
    using js_lt_imp_le [of dA dB] js_lt_not_ge [of dB dA] js_eq_imp_le [of dA dB]
    by auto
  then show ?thesis
    unfolding Let_def A_def B_def dA_def dB_def .
qed

text \<open>
  The example of the specification: ratio 2, viewport 100 by 100, measured size 80 by
  80. Both distances are 80 and candidate A, 80 by 40, is returned. A viewport of 160
  by 80 is nearer to candidate B, 160 by 80, which is then returned. With the ratio one
  tenth, the viewport 20 by 50.5 and the measured size 1 by 100, both rounded distances
  are 59.5 and candidate A, 1 by 10, is returned, although the distance of B is the
  smaller one before rounding.
\<close>

theorem apply_aspect_free_axes_nearest_candidate_witness:
  "js_eq (js_add (Math_abs (js_sub (Num 100) (Num 80))) (Math_abs (js_sub (Num 100) (Num 40))))
         (Num 80) \<and>
   js_eq (js_add (Math_abs (js_sub (Num 100) (Num 160))) (Math_abs (js_sub (Num 100) (Num 80))))
         (Num 80) \<and>
   apply_aspect (default_sizing\<lparr>BoxSizing.aspect := Some (Num 2)\<rparr>)
     \<lparr>Size.width = Num 100, Size.height = Num 100\<rparr>
     \<lparr>Size.width = Num 80, Size.height = Num 80\<rparr>
   = Inr \<lparr>Size.width = Num 80, Size.height = Num 40\<rparr> \<and>
   apply_aspect (default_sizing\<lparr>BoxSizing.aspect := Some (Num 2)\<rparr>)
     \<lparr>Size.width = Num 160, Size.height = Num 80\<rparr>
     \<lparr>Size.width = Num 80, Size.height = Num 80\<rparr>
   = Inr \<lparr>Size.width = Num 160, Size.height = Num 80\<rparr> \<and>
   apply_aspect (default_sizing\<lparr>BoxSizing.aspect := Some (Num 2)\<rparr>)
     \<lparr>Size.width = Num 90, Size.height = Num 50\<rparr>
     \<lparr>Size.width = Num 80, Size.height = Num 80\<rparr>
   = Inr \<lparr>Size.width = Num 80, Size.height = Num 40\<rparr> \<and>
   apply_aspect
     (default_sizing\<lparr>BoxSizing.aspect := Some (Num (3602879701896397 / 36028797018963968))\<rparr>)
     \<lparr>Size.width = Num 20, Size.height = Num (101 / 2)\<rparr>
     \<lparr>Size.width = Num 1, Size.height = Num 100\<rparr>
   = Inr \<lparr>Size.width = Num 1, Size.height = Num 10\<rparr>"
proof -
  let ?s = "default_sizing\<lparr>BoxSizing.aspect := Some (Num 2)\<rparr>"
  let ?sz = "\<lparr>Size.width = Num 80, Size.height = Num 80\<rparr>"
  let ?s' = "default_sizing\<lparr>BoxSizing.aspect :=
               Some (Num (3602879701896397 / 36028797018963968))\<rparr>"
  have a: "BoxSizing.aspect ?s = Some (Num 2)" by simp
  have w: "BoxSizing.width_policy ?s \<noteq> SP_fixed" by (simp add: default_sizing_def)
  have h: "BoxSizing.height_policy ?s \<noteq> SP_fixed" by (simp add: default_sizing_def)
  have a': "BoxSizing.aspect ?s' = Some (Num (3602879701896397 / 36028797018963968))" by simp
  have w': "BoxSizing.width_policy ?s' \<noteq> SP_fixed" by (simp add: default_sizing_def)
  have h': "BoxSizing.height_policy ?s' \<noteq> SP_fixed" by (simp add: default_sizing_def)
  note t = apply_aspect_free_axes_nearest_candidate [OF a w h, of ?sz]
  note t' = apply_aspect_free_axes_nearest_candidate [OF a' w' h']
  have 1: "apply_aspect ?s \<lparr>Size.width = Num 100, Size.height = Num 100\<rparr> ?sz
           = Inr \<lparr>Size.width = Num 80, Size.height = Num 40\<rparr>"
    using t [of "\<lparr>Size.width = Num 100, Size.height = Num 100\<rparr>"]
    by (simp add: Let_def cmp_defs arith_examples)
  have 2: "apply_aspect ?s \<lparr>Size.width = Num 160, Size.height = Num 80\<rparr> ?sz
           = Inr \<lparr>Size.width = Num 160, Size.height = Num 80\<rparr>"
    using t [of "\<lparr>Size.width = Num 160, Size.height = Num 80\<rparr>"]
    by (simp add: Let_def cmp_defs arith_examples)
  have 3: "apply_aspect ?s \<lparr>Size.width = Num 90, Size.height = Num 50\<rparr> ?sz
           = Inr \<lparr>Size.width = Num 80, Size.height = Num 40\<rparr>"
    using t [of "\<lparr>Size.width = Num 90, Size.height = Num 50\<rparr>"]
    by (simp add: Let_def cmp_defs arith_examples)
  have 4: "apply_aspect ?s' \<lparr>Size.width = Num 20, Size.height = Num (101 / 2)\<rparr>
             \<lparr>Size.width = Num 1, Size.height = Num 100\<rparr>
           = Inr \<lparr>Size.width = Num 1, Size.height = Num 10\<rparr>"
    using t' [of "\<lparr>Size.width = Num 1, Size.height = Num 100\<rparr>"
                 "\<lparr>Size.width = Num 20, Size.height = Num (101 / 2)\<rparr>"]
    by (simp add: Let_def cmp_defs arith_examples)
  show ?thesis
    using 1 2 3 4 by (simp add: cmp_defs arith_examples)
qed

text \<open>
  C3. When an aspect ratio is configured and both policies are fixed, \<open>apply_aspect\<close>
  throws, and so do \<open>measure\<close> and \<open>compute\<close>: none of them returns a size. Under
  every other combination of policies \<open>apply_aspect\<close> returns, and without an aspect
  ratio it returns the candidate size as it is.
\<close>

theorem apply_aspect_throws_iff_both_fixed:
  "(BoxSizing.aspect s \<noteq> None \<and> BoxSizing.width_policy s = SP_fixed \<and>
      BoxSizing.height_policy s = SP_fixed \<longrightarrow>
        apply_aspect s v sz = Inl Unreachable \<and>
        measure_sizing s m v = Inl Unreachable \<and>
        (sizing l = Some s \<longrightarrow>
           measure_layout m l v = Inl Unreachable \<and> compute m sg vp l = Inl Unreachable)) \<and>
   (\<not> (BoxSizing.width_policy s = SP_fixed \<and> BoxSizing.height_policy s = SP_fixed) \<longrightarrow>
        (\<exists>r. apply_aspect s v sz = Inr r)) \<and>
   (BoxSizing.aspect s = None \<longrightarrow> apply_aspect s v sz = Inr sz)"
proof (intro conjI impI)
  assume h: "BoxSizing.aspect s \<noteq> None \<and> BoxSizing.width_policy s = SP_fixed \<and>
      BoxSizing.height_policy s = SP_fixed"
  then obtain a where a: "BoxSizing.aspect s = Some a" by auto
  from h a have bf: "\<And>v sz. apply_aspect s v sz = Inl Unreachable"
    by (simp add: apply_aspect_both_fixed)
  show "apply_aspect s v sz = Inl Unreachable" by (rule bf)
  have ms: "\<And>v. measure_sizing s m v = Inl Unreachable"
    by (simp add: measure_sizing_unfold bf)
  show "measure_sizing s m v = Inl Unreachable" by (rule ms)
  assume l: "sizing l = Some s"
  show "measure_layout m l v = Inl Unreachable"
    using l ms by (simp add: measure_layout_def)
  show "compute m sg vp l = Inl Unreachable"
    using l ms by (simp add: compute_def measure_layout_def)
next
  assume "\<not> (BoxSizing.width_policy s = SP_fixed \<and> BoxSizing.height_policy s = SP_fixed)"
  then show "\<exists>r. apply_aspect s v sz = Inr r" by (rule apply_aspect_returns)
next
  assume "BoxSizing.aspect s = None"
  then show "apply_aspect s v sz = Inr sz" by (rule apply_aspect_no_aspect)
qed


text \<open>The instances: both policies fixed with ratio 2; width alone fixed; no ratio.\<close>

theorem apply_aspect_throws_iff_both_fixed_witness:
  "apply_aspect
     (default_sizing\<lparr>BoxSizing.aspect := Some (Num 2), BoxSizing.width_policy := SP_fixed,
        BoxSizing.height_policy := SP_fixed\<rparr>)
     \<lparr>Size.width = Num 100, Size.height = Num 100\<rparr>
     \<lparr>Size.width = Num 80, Size.height = Num 80\<rparr> = Inl Unreachable \<and>
   measure_sizing
     (default_sizing\<lparr>BoxSizing.aspect := Some (Num 2), BoxSizing.width_policy := SP_fixed,
        BoxSizing.height_policy := SP_fixed\<rparr>)
     LayoutItem_measure \<lparr>Size.width = Num 100, Size.height = Num 100\<rparr> = Inl Unreachable \<and>
   compute LayoutItem_measure protected_set_geometry None
     (new_Layoutable\<lparr>sizing := Some
        (default_sizing\<lparr>BoxSizing.aspect := Some (Num 2), BoxSizing.width_policy := SP_fixed,
           BoxSizing.height_policy := SP_fixed\<rparr>)\<rparr>) = Inl Unreachable \<and>
   (\<exists>r. apply_aspect
     (default_sizing\<lparr>BoxSizing.aspect := Some (Num 2), BoxSizing.width_policy := SP_fixed\<rparr>)
     \<lparr>Size.width = Num 100, Size.height = Num 100\<rparr>
     \<lparr>Size.width = Num 80, Size.height = Num 80\<rparr> = Inr r) \<and>
   apply_aspect
     (default_sizing\<lparr>BoxSizing.width_policy := SP_fixed, BoxSizing.height_policy := SP_fixed\<rparr>)
     \<lparr>Size.width = Num 100, Size.height = Num 100\<rparr>
     \<lparr>Size.width = Num 80, Size.height = Num 80\<rparr>
     = Inr \<lparr>Size.width = Num 80, Size.height = Num 80\<rparr>"
proof -
  let ?bf = "default_sizing\<lparr>BoxSizing.aspect := Some (Num 2), BoxSizing.width_policy := SP_fixed,
        BoxSizing.height_policy := SP_fixed\<rparr>"
  let ?wf = "default_sizing\<lparr>BoxSizing.aspect := Some (Num 2), BoxSizing.width_policy := SP_fixed\<rparr>"
  let ?na = "default_sizing\<lparr>BoxSizing.width_policy := SP_fixed, BoxSizing.height_policy := SP_fixed\<rparr>"
  let ?v = "\<lparr>Size.width = Num 100, Size.height = Num 100\<rparr>"
  let ?sz = "\<lparr>Size.width = Num 80, Size.height = Num 80\<rparr>"
  have 1: "BoxSizing.aspect ?bf \<noteq> None \<and> BoxSizing.width_policy ?bf = SP_fixed \<and>
      BoxSizing.height_policy ?bf = SP_fixed" by simp
  have 2: "sizing (new_Layoutable\<lparr>sizing := Some ?bf\<rparr>) = Some ?bf" by simp
  have 3: "\<not> (BoxSizing.width_policy ?wf = SP_fixed \<and> BoxSizing.height_policy ?wf = SP_fixed)"
    by (simp add: default_sizing_def)
  have 4: "BoxSizing.aspect ?na = None" by (simp add: default_sizing_def)
  show ?thesis
    using apply_aspect_throws_iff_both_fixed
            [of ?bf ?v ?sz LayoutItem_measure "new_Layoutable\<lparr>sizing := Some ?bf\<rparr>"
                protected_set_geometry None]
          apply_aspect_throws_iff_both_fixed [of ?wf ?v ?sz]
          apply_aspect_throws_iff_both_fixed [of ?na ?v ?sz]
          1 2 3 4
    by blast
qed

text \<open>
  C1. With an aspect ratio configured and exactly one policy fixed, the fixed axis
  should keep its dimension and the free axis be derived from it: ratio 2, a fixed
  width of 50 and a free height should measure 50 by 25 in every viewport. On the
  reference leaf in a viewport of 100 by 100 the result is 200 by 100: the branch taken
  when the width is fixed keeps the measured height and overwrites the width.
\<close>

theorem measure_fixed_width_with_aspect_overwrites_width:
  "measure_sizing
     (default_sizing\<lparr>BoxSizing.aspect := Some (Num 2), BoxSizing.width_policy := SP_fixed,
        BoxSizing.width := Some (Num 50)\<rparr>)
     LayoutItem_measure \<lparr>Size.width = Num 100, Size.height = Num 100\<rparr>
   = Inr \<lparr>Size.width = Num 200, Size.height = Num 100, inner = None\<rparr>"
  by (simp add: eval_defs)


section \<open>Measurement: results\<close>

text \<open>
  C4. \<open>measure\<close> clips the viewport with the clamps of each axis, then replaces the
  dimension of every axis whose policy is fixed and whose explicit value is configured
  by that value, and calls the content-measurement hook on the result. Before the aspect
  ratio is applied, the dimension of an axis is the explicit value when the policy is
  fixed and the value present, and the value the hook measured otherwise, which covers
  the policies fit, min and max. The inner margin of the hook is returned unchanged.
\<close>

theorem measure_clips_overrides_and_keeps_inner:
  "measure_sizing s m viewport =
     (case apply_aspect s (spec_working_viewport s viewport)
             (spec_final_size s (m (spec_working_viewport s viewport))) of
        Inl e \<Rightarrow> Inl e
      | Inr sz \<Rightarrow> Inr \<lparr>Size.width = Size.width sz, Size.height = Size.height sz,
                       inner = inner (m (spec_working_viewport s viewport))\<rparr>) \<and>
   (BoxSizing.aspect s = None \<longrightarrow>
      measure_sizing s m viewport =
        Inr \<lparr>Size.width = spec_final_dimension (BoxSizing.width_policy s) (BoxSizing.width s)
                             (Size.width (m (spec_working_viewport s viewport))),
             Size.height = spec_final_dimension (BoxSizing.height_policy s) (BoxSizing.height s)
                             (Size.height (m (spec_working_viewport s viewport))),
             inner = inner (m (spec_working_viewport s viewport))\<rparr>) \<and>
   (\<forall>h. measure_sizing s m viewport = Inr h \<longrightarrow>
      inner h = inner (m (spec_working_viewport s viewport)))"
proof (intro conjI impI allI)
  show "measure_sizing s m viewport =
     (case apply_aspect s (spec_working_viewport s viewport)
             (spec_final_size s (m (spec_working_viewport s viewport))) of
        Inl e \<Rightarrow> Inl e
      | Inr sz \<Rightarrow> Inr \<lparr>Size.width = Size.width sz, Size.height = Size.height sz,
                       inner = inner (m (spec_working_viewport s viewport))\<rparr>)"
    by (rule measure_sizing_unfold)
next
  assume "BoxSizing.aspect s = None"
  then show "measure_sizing s m viewport =
        Inr \<lparr>Size.width = spec_final_dimension (BoxSizing.width_policy s) (BoxSizing.width s)
                             (Size.width (m (spec_working_viewport s viewport))),
             Size.height = spec_final_dimension (BoxSizing.height_policy s) (BoxSizing.height s)
                             (Size.height (m (spec_working_viewport s viewport))),
             inner = inner (m (spec_working_viewport s viewport))\<rparr>"
    by (simp add: measure_sizing_unfold apply_aspect_no_aspect spec_final_size_def)
next
  fix h
  assume "measure_sizing s m viewport = Inr h"
  then show "inner h = inner (m (spec_working_viewport s viewport))"
    by (auto simp: measure_sizing_unfold split: sum.splits)
qed

text \<open>
  A fixed width of 50 and a height clamped to at most 30, in a viewport of 100 by 100:
  the hook is called on 50 by 30, and its inner margin comes back as it is.
\<close>

theorem measure_clips_overrides_and_keeps_inner_witness:
  "spec_working_viewport
     (default_sizing\<lparr>BoxSizing.width_policy := SP_fixed, BoxSizing.width := Some (Num 50),
        BoxSizing.max_height := Num 30\<rparr>)
     \<lparr>Size.width = Num 100, Size.height = Num 100\<rparr>
   = \<lparr>Size.width = Num 50, Size.height = Num 30\<rparr> \<and>
   measure_sizing
     (default_sizing\<lparr>BoxSizing.width_policy := SP_fixed, BoxSizing.width := Some (Num 50),
        BoxSizing.max_height := Num 30\<rparr>)
     margin_hook \<lparr>Size.width = Num 100, Size.height = Num 100\<rparr>
   = Inr \<lparr>Size.width = Num 50, Size.height = Num 30,
          inner = Some \<lparr>left = Num 5, top = Num 6, right = Num 7, bottom = Num 8\<rparr>\<rparr>"
proof -
  let ?s = "default_sizing\<lparr>BoxSizing.width_policy := SP_fixed, BoxSizing.width := Some (Num 50),
        BoxSizing.max_height := Num 30\<rparr>"
  let ?v = "\<lparr>Size.width = Num 100, Size.height = Num 100\<rparr>"
  have a: "BoxSizing.aspect ?s = None" by (simp add: default_sizing_def)
  have w: "spec_working_viewport ?s ?v = \<lparr>Size.width = Num 50, Size.height = Num 30\<rparr>"
    by (simp add: spec_working_viewport_def spec_working_dimension_def default_sizing_def
        clip_height_def clip_width_def Math_min_def Math_max_def cmp_defs)
  note t = measure_clips_overrides_and_keeps_inner
             [of ?s margin_hook ?v, THEN conjunct2, THEN conjunct1, rule_format, OF a]
  show ?thesis
    unfolding t w
    by (simp add: margin_hook_def spec_final_dimension_def default_sizing_def)
qed

text \<open>
  C8. The reference leaf with default sizing: an unbounded viewport measures 0 by 0, a
  viewport of 120 by 40 measures 120 by 40, and \<open>compute\<close> on 120 by 40 hands the
  placement hook the box at the origin of width 120 and height 40 as outer box and, there
  being no inner margin, the same box as inner box; the element's bounding box is then
  that box.
\<close>

theorem layout_item_default_sizing_examples:
  "sizing (set_sizing empty_partial new_Layoutable) = Some default_sizing \<and>
   measure_layout LayoutItem_measure (set_sizing empty_partial new_Layoutable)
     \<lparr>Size.width = PosInf, Size.height = PosInf\<rparr>
   = Inr \<lparr>Size.width = Num 0, Size.height = Num 0, inner = None\<rparr> \<and>
   measure_layout LayoutItem_measure (set_sizing empty_partial new_Layoutable)
     \<lparr>Size.width = Num 120, Size.height = Num 40\<rparr>
   = Inr \<lparr>Size.width = Num 120, Size.height = Num 40, inner = None\<rparr> \<and>
   compute LayoutItem_measure sg
     (Some \<lparr>PartialSize.width = Some (Num 120), PartialSize.height = Some (Num 40)\<rparr>)
     (set_sizing empty_partial new_Layoutable)
   = Inr (sg (BBox_ltwh (Num 0) (Num 0) (Num 120) (Num 40))
             (BBox_ltwh (Num 0) (Num 0) (Num 120) (Num 40))
             (set_sizing empty_partial new_Layoutable)) \<and>
   invoke LayoutItem_measure
     (Call_compute (Some \<lparr>PartialSize.width = Some (Num 120), PartialSize.height = Some (Num 40)\<rparr>))
     (set_sizing empty_partial new_Layoutable)
   = (\<lparr>bbox = BBox_ltwh (Num 0) (Num 0) (Num 120) (Num 40), sizing = Some default_sizing\<rparr>,
      Returned)"
  by (simp add: set_sizing_def empty_partial_def protected_init_def eval_defs)

section \<open>Clamping: results\<close>

lemma clamp_cases:
  "(js_le mn v \<and> js_le v mx \<longrightarrow>
      js_eq (Math_max mn (Math_min v mx)) v \<and>
      (\<not> is_zero v \<longrightarrow> Math_max mn (Math_min v mx) = v)) \<and>
   (js_lt v mn \<and> mx \<noteq> NaN \<longrightarrow> Math_max mn (Math_min v mx) = mn) \<and>
   (js_lt mx v \<and> js_le mn mx \<longrightarrow>
      js_eq (Math_max mn (Math_min v mx)) mx \<and>
      (\<not> is_zero mx \<longrightarrow> Math_max mn (Math_min v mx) = mx)) \<and>
   (js_lt mx mn \<and> v \<noteq> NaN \<longrightarrow> Math_max mn (Math_min v mx) = mn)"
  using clamp_inside [of mn v mx] clamp_inside_exact [of mn v mx] clamp_below [of v mn mx]
        clamp_above [of mx v mn] clamp_above_exact [of mx v mn] clamp_inverted [of mx mn v]
  by blast

text \<open>
  C7. \<open>clip_width\<close> and \<open>clip_height\<close> compute the maximum of the lower bound and of
  the minimum of the value and the upper bound, and NaN propagates through both. For
  bounds in order, lower at most upper: a value between the bounds, the bounds included,
  comes back equal to itself (and identical, unless it is a zero, whose sign may
  change); a value below the lower bound gives the lower bound; a value above the upper
  bound gives a result equal to the upper bound (identical unless that bound is a zero).
  When the lower bound exceeds the upper one, every value that is a number gives the
  lower bound. \<open>clip_size\<close> clips each axis so.
\<close>

theorem clip_clamps_into_range:
  "clip_width s v = Math_max (BoxSizing.min_width s) (Math_min v (BoxSizing.max_width s)) \<and>
   clip_height s v = Math_max (BoxSizing.min_height s) (Math_min v (BoxSizing.max_height s)) \<and>
   (js_le (BoxSizing.min_width s) v \<and> js_le v (BoxSizing.max_width s) \<longrightarrow>
      js_eq (clip_width s v) v \<and> (\<not> is_zero v \<longrightarrow> clip_width s v = v)) \<and>
   (js_lt v (BoxSizing.min_width s) \<and> BoxSizing.max_width s \<noteq> NaN \<longrightarrow>
      clip_width s v = BoxSizing.min_width s) \<and>
   (js_lt (BoxSizing.max_width s) v \<and> js_le (BoxSizing.min_width s) (BoxSizing.max_width s) \<longrightarrow>
      js_eq (clip_width s v) (BoxSizing.max_width s) \<and>
      (\<not> is_zero (BoxSizing.max_width s) \<longrightarrow> clip_width s v = BoxSizing.max_width s)) \<and>
   (js_lt (BoxSizing.max_width s) (BoxSizing.min_width s) \<and> v \<noteq> NaN \<longrightarrow>
      clip_width s v = BoxSizing.min_width s) \<and>
   (js_le (BoxSizing.min_height s) v \<and> js_le v (BoxSizing.max_height s) \<longrightarrow>
      js_eq (clip_height s v) v \<and> (\<not> is_zero v \<longrightarrow> clip_height s v = v)) \<and>
   (js_lt v (BoxSizing.min_height s) \<and> BoxSizing.max_height s \<noteq> NaN \<longrightarrow>
      clip_height s v = BoxSizing.min_height s) \<and>
   (js_lt (BoxSizing.max_height s) v \<and> js_le (BoxSizing.min_height s) (BoxSizing.max_height s) \<longrightarrow>
      js_eq (clip_height s v) (BoxSizing.max_height s) \<and>
      (\<not> is_zero (BoxSizing.max_height s) \<longrightarrow> clip_height s v = BoxSizing.max_height s)) \<and>
   (js_lt (BoxSizing.max_height s) (BoxSizing.min_height s) \<and> v \<noteq> NaN \<longrightarrow>
      clip_height s v = BoxSizing.min_height s) \<and>
   clip_size s sz =
     \<lparr>Size.width = clip_width s (Size.width sz), Size.height = clip_height s (Size.height sz)\<rparr>"
proof -
  have w: "(js_le (BoxSizing.min_width s) v \<and> js_le v (BoxSizing.max_width s) \<longrightarrow>
      js_eq (clip_width s v) v \<and> (\<not> is_zero v \<longrightarrow> clip_width s v = v)) \<and>
   (js_lt v (BoxSizing.min_width s) \<and> BoxSizing.max_width s \<noteq> NaN \<longrightarrow>
      clip_width s v = BoxSizing.min_width s) \<and>
   (js_lt (BoxSizing.max_width s) v \<and> js_le (BoxSizing.min_width s) (BoxSizing.max_width s) \<longrightarrow>
      js_eq (clip_width s v) (BoxSizing.max_width s) \<and>
      (\<not> is_zero (BoxSizing.max_width s) \<longrightarrow> clip_width s v = BoxSizing.max_width s)) \<and>
   (js_lt (BoxSizing.max_width s) (BoxSizing.min_width s) \<and> v \<noteq> NaN \<longrightarrow>
      clip_width s v = BoxSizing.min_width s)"
    unfolding clip_width_def
    by (rule clamp_cases)
  have h: "(js_le (BoxSizing.min_height s) v \<and> js_le v (BoxSizing.max_height s) \<longrightarrow>
      js_eq (clip_height s v) v \<and> (\<not> is_zero v \<longrightarrow> clip_height s v = v)) \<and>
   (js_lt v (BoxSizing.min_height s) \<and> BoxSizing.max_height s \<noteq> NaN \<longrightarrow>
      clip_height s v = BoxSizing.min_height s) \<and>
   (js_lt (BoxSizing.max_height s) v \<and> js_le (BoxSizing.min_height s) (BoxSizing.max_height s) \<longrightarrow>
      js_eq (clip_height s v) (BoxSizing.max_height s) \<and>
      (\<not> is_zero (BoxSizing.max_height s) \<longrightarrow> clip_height s v = BoxSizing.max_height s)) \<and>
   (js_lt (BoxSizing.max_height s) (BoxSizing.min_height s) \<and> v \<noteq> NaN \<longrightarrow>
      clip_height s v = BoxSizing.min_height s)"
    unfolding clip_height_def
    by (rule clamp_cases)
  have d: "clip_width s v = Math_max (BoxSizing.min_width s) (Math_min v (BoxSizing.max_width s))"
    "clip_height s v = Math_max (BoxSizing.min_height s) (Math_min v (BoxSizing.max_height s))"
    "clip_size s sz =
       \<lparr>Size.width = clip_width s (Size.width sz), Size.height = clip_height s (Size.height sz)\<rparr>"
    by (simp_all add: clip_width_def clip_height_def clip_size_def)
  from w h d show ?thesis by (intro conjI) (erule conjunct1 | erule conjunct2 | assumption | blast)+
qed

lemma range_sizing_simps:
  "BoxSizing.min_width (range_sizing lo hi) = lo"
  "BoxSizing.max_width (range_sizing lo hi) = hi"
  "BoxSizing.min_height (range_sizing lo hi) = lo"
  "BoxSizing.max_height (range_sizing lo hi) = hi"
  by (simp_all add: range_sizing_def)

text \<open>
  The range from 10 to 20 at both bounds, below and above; the inverted range from 10
  down to 5 at 7; the negative zero in the range from 0 to 20.
\<close>

theorem clip_clamps_into_range_witness:
  "clip_width (range_sizing (Num 10) (Num 20)) (Num 10) = Num 10 \<and>
   clip_width (range_sizing (Num 10) (Num 20)) (Num 20) = Num 20 \<and>
   clip_width (range_sizing (Num 10) (Num 20)) (Num 3) = Num 10 \<and>
   clip_width (range_sizing (Num 10) (Num 20)) PosInf = Num 20 \<and>
   clip_width (range_sizing (Num 10) (Num 5)) (Num 7) = Num 10 \<and>
   js_eq (clip_width (range_sizing (Num 0) (Num 20)) NegZero) NegZero \<and>
   clip_height (range_sizing (Num 10) (Num 20)) (Num 10) = Num 10 \<and>
   clip_height (range_sizing (Num 10) (Num 20)) (Num 20) = Num 20 \<and>
   clip_height (range_sizing (Num 10) (Num 20)) (Num 3) = Num 10 \<and>
   clip_height (range_sizing (Num 10) (Num 20)) PosInf = Num 20 \<and>
   clip_height (range_sizing (Num 10) (Num 5)) (Num 7) = Num 10 \<and>
   js_eq (clip_height (range_sizing (Num 0) (Num 20)) NegZero) NegZero"
  using clip_clamps_into_range [of "range_sizing (Num 10) (Num 20)" "Num 10"]
        clip_clamps_into_range [of "range_sizing (Num 10) (Num 20)" "Num 20"]
        clip_clamps_into_range [of "range_sizing (Num 10) (Num 20)" "Num 3"]
        clip_clamps_into_range [of "range_sizing (Num 10) (Num 20)" PosInf]
        clip_clamps_into_range [of "range_sizing (Num 10) (Num 5)" "Num 7"]
        clip_clamps_into_range [of "range_sizing (Num 0) (Num 20)" NegZero]
  by (simp add: range_sizing_simps Math_min_def Math_max_def cmp_defs)

section \<open>The element's state: results\<close>

lemma compute_keeps_sizing:
  "compute m protected_set_geometry viewport l = Inr l' \<Longrightarrow> sizing l' = sizing l"
  by (auto simp: compute_def set_geometry_def protected_set_geometry_def Let_def split: sum.splits)

text \<open>
  C6. With the placement hook of the base class, calling \<open>compute\<close> a second time
  with the same viewport leaves the element, and so its bounding box, as the first call
  left it.
\<close>

theorem compute_twice_same_bbox:
  "fst (invoke m (Call_compute viewport) (fst (invoke m (Call_compute viewport) l)))
     = fst (invoke m (Call_compute viewport) l) \<and>
   bbox (fst (invoke m (Call_compute viewport) (fst (invoke m (Call_compute viewport) l))))
     = bbox (fst (invoke m (Call_compute viewport) l))"
proof (cases "compute m protected_set_geometry viewport l")
  case (Inl e)
  then show ?thesis by simp
next
  case (Inr l1)
  have s: "sizing l1 = sizing l" using Inr by (rule compute_keeps_sizing)
  have "compute m protected_set_geometry viewport l1 = Inr l1"
    using Inr s
    by (auto simp: compute_def measure_layout_def set_geometry_def protected_set_geometry_def
        Let_def split: sum.splits option.splits)
  with Inr show ?thesis by simp
qed

text \<open>
  C9. \<open>compute\<close> takes an absent viewport dimension as infinite. It builds the outer
  box at the origin with the measured width and height. When the size hint has an inner
  margin, the inner box has the margin's left and top as its left and top, and the
  width minus the margin's right and the height minus the margin's bottom as its right
  and bottom edges. The placement hook receives the outer box and the inner box, or the
  outer box twice when there is no inner margin.
\<close>

theorem compute_builds_outer_and_inner_box:
  "compute m sg (Some \<lparr>PartialSize.width = Some w, PartialSize.height = Some h\<rparr>) l =
     (case measure_layout m l \<lparr>Size.width = w, Size.height = h\<rparr> of
        Inl e \<Rightarrow> Inl e
      | Inr hint \<Rightarrow>
          Inr (sg (BBox_ltwh (Num 0) (Num 0) (Size.width hint) (Size.height hint))
                  (case inner hint of
                     None \<Rightarrow> BBox_ltwh (Num 0) (Num 0) (Size.width hint) (Size.height hint)
                   | Some mg \<Rightarrow>
                       BBox_ltrb (left mg) (top mg)
                         (js_sub (Size.width hint) (right mg))
                         (js_sub (Size.height hint) (bottom mg)))
                  l)) \<and>
   compute m sg None l =
     compute m sg (Some \<lparr>PartialSize.width = Some PosInf, PartialSize.height = Some PosInf\<rparr>) l \<and>
   compute m sg (Some \<lparr>PartialSize.width = None, PartialSize.height = None\<rparr>) l =
     compute m sg (Some \<lparr>PartialSize.width = Some PosInf, PartialSize.height = Some PosInf\<rparr>) l \<and>
   compute m sg (Some \<lparr>PartialSize.width = Some w, PartialSize.height = None\<rparr>) l =
     compute m sg (Some \<lparr>PartialSize.width = Some w, PartialSize.height = Some PosInf\<rparr>) l \<and>
   compute m sg (Some \<lparr>PartialSize.width = None, PartialSize.height = Some h\<rparr>) l =
     compute m sg (Some \<lparr>PartialSize.width = Some PosInf, PartialSize.height = Some h\<rparr>) l"
  by (simp add: compute_def set_geometry_def Let_def split: sum.splits option.splits)

text \<open>
  A hook that reports the margin 5, 6, 7, 8 and a placement that keeps the inner box:
  in a viewport of 120 by 40 the inner box runs from 5, 6 to 113, 32.
\<close>

theorem compute_builds_outer_and_inner_box_witness:
  "compute margin_hook store_inner
     (Some \<lparr>PartialSize.width = Some (Num 120), PartialSize.height = Some (Num 40)\<rparr>)
     (set_sizing empty_partial new_Layoutable)
   = Inr ((set_sizing empty_partial new_Layoutable)
            \<lparr>bbox := BBox_ltrb (Num 5) (Num 6) (Num 113) (Num 32)\<rparr>)"
proof -
  have m: "measure_layout margin_hook (set_sizing empty_partial new_Layoutable)
             \<lparr>Size.width = Num 120, Size.height = Num 40\<rparr>
           = Inr \<lparr>Size.width = Num 120, Size.height = Num 40,
                  inner = Some \<lparr>left = Num 5, top = Num 6, right = Num 7, bottom = Num 8\<rparr>\<rparr>"
    by (simp add: set_sizing_def empty_partial_def protected_init_def margin_hook_def eval_defs)
  note t = compute_builds_outer_and_inner_box
             [of margin_hook store_inner "Num 120" "Num 40"
                 "set_sizing empty_partial new_Layoutable", THEN conjunct1]
  show ?thesis
    unfolding t m by (simp add: store_inner_def arith_examples)
qed

text \<open>
  C10. \<open>set_sizing\<close> leaves the bounding box as it was and writes the sizing only. In
  the sizing it writes, an absent policy is fit, an absent lower bound is 0, an absent
  upper bound is infinite and an absent margin is zero on every side; the explicit
  width and height and the aspect ratio are taken over as they are.
\<close>

theorem set_sizing_keeps_bbox_and_defaults:
  "bbox (set_sizing p l) = bbox l \<and>
   set_sizing p l = l\<lparr>sizing := sizing (set_sizing p l)\<rparr> \<and>
   (\<exists>s. sizing (set_sizing p l) = Some s \<and>
      BoxSizing.width_policy s =
        (case PartialBoxSizing.width_policy p of None \<Rightarrow> SP_fit | Some q \<Rightarrow> q) \<and>
      BoxSizing.height_policy s =
        (case PartialBoxSizing.height_policy p of None \<Rightarrow> SP_fit | Some q \<Rightarrow> q) \<and>
      BoxSizing.min_width s =
        (case PartialBoxSizing.min_width p of None \<Rightarrow> Num 0 | Some x \<Rightarrow> x) \<and>
      BoxSizing.min_height s =
        (case PartialBoxSizing.min_height p of None \<Rightarrow> Num 0 | Some x \<Rightarrow> x) \<and>
      BoxSizing.max_width s =
        (case PartialBoxSizing.max_width p of None \<Rightarrow> PosInf | Some x \<Rightarrow> x) \<and>
      BoxSizing.max_height s =
        (case PartialBoxSizing.max_height p of None \<Rightarrow> PosInf | Some x \<Rightarrow> x) \<and>
      BoxSizing.margin s =
        (case PartialBoxSizing.margin p of
           None \<Rightarrow> \<lparr>left = Num 0, top = Num 0, right = Num 0, bottom = Num 0\<rparr>
         | Some mg \<Rightarrow> mg) \<and>
      BoxSizing.width s = PartialBoxSizing.width p \<and>
      BoxSizing.height s = PartialBoxSizing.height p \<and>
      BoxSizing.aspect s = PartialBoxSizing.aspect p) \<and>
   set_sizing empty_partial l = l\<lparr>sizing := Some default_sizing\<rparr> \<and>
   fst (invoke m (Call_set_sizing p) l) = set_sizing p l"
  by (simp add: set_sizing_def protected_init_def empty_partial_def default_sizing_def
      split: option.splits)

section \<open>The store: results\<close>

lemma lookup_alloc: "a < length st \<Longrightarrow> lookup (st @ [x]) a = lookup st a"
  by (simp add: lookup_def nth_append)

lemma length_set_width: "length (set_width c w st) = length st"
  by (simp add: set_width_def split: option.splits obj.splits)

lemma length_set_height: "length (set_height c h st) = length st"
  by (simp add: set_height_def split: option.splits obj.splits)

lemma lookup_set_width_other: "a \<noteq> c \<Longrightarrow> lookup (set_width c w st) a = lookup st a"
  by (simp add: set_width_def lookup_def split: option.splits obj.splits)

lemma lookup_set_height_other: "a \<noteq> c \<Longrightarrow> lookup (set_height c h st) a = lookup st a"
  by (simp add: set_height_def lookup_def split: option.splits obj.splits)

lemma alloc_clipped_address: "fst (alloc_clipped s viewport st) = length st"
  by (simp add: alloc_clipped_def alloc_def Let_def)

lemma alloc_clipped_length: "length (snd (alloc_clipped s viewport st)) = Suc (length st)"
  by (simp add: alloc_clipped_def alloc_def Let_def length_set_width length_set_height
      split: option.splits)

lemma alloc_clipped_old:
  "a < length st \<Longrightarrow> lookup (snd (alloc_clipped s viewport st)) a = lookup st a"
  by (simp add: alloc_clipped_def alloc_def Let_def lookup_set_width_other
      lookup_set_height_other lookup_alloc split: option.splits)

lemma alloc_clipped_new:
  "lookup (snd (alloc_clipped s viewport st)) (length st) =
     Some (Size_obj (spec_working_viewport s viewport))"
  by (cases "BoxSizing.width_policy s"; cases "BoxSizing.height_policy s";
      cases "BoxSizing.width s"; cases "BoxSizing.height s")
     (simp_all add: alloc_clipped_def alloc_def Let_def lookup_def set_width_def set_height_def
        spec_working_viewport_def spec_working_dimension_def clip_size_def)

lemma snd_measure_after_hook: "snd (measure_after_hook s this c r) = snd r"
  by (cases r) (simp split: option.splits obj.splits sum.splits add: Let_def)

lemma measure_store_alternatives:
  "snd (measure_store hook this vp st) = st \<or>
   (\<exists>s viewport. snd (measure_store hook this vp st)
      = snd (hook this (length st) (snd (alloc_clipped s viewport st))))"
proof (cases "lookup st this")
  case None
  then show ?thesis by (simp add: measure_store_def)
next
  case (Some ob)
  show ?thesis
  proof (cases ob)
    case (Size_obj z)
    with Some show ?thesis by (simp add: measure_store_def)
  next
    case (Elem_obj l)
    show ?thesis
    proof (cases "sizing l")
      case None
      with Some Elem_obj show ?thesis by (simp add: measure_store_def)
    next
      case s: (Some s)
      show ?thesis
      proof (cases "lookup st vp")
        case None
        with Some Elem_obj s show ?thesis by (simp add: measure_store_def)
      next
        case v: (Some vo)
        show ?thesis
        proof (cases vo)
          case (Elem_obj l')
          with Some \<open>ob = Elem_obj l\<close> s v show ?thesis by (simp add: measure_store_def)
        next
          case (Size_obj viewport)
          have "snd (measure_store hook this vp st)
                = snd (hook this (length st) (snd (alloc_clipped s viewport st)))"
            using Some \<open>ob = Elem_obj l\<close> s v Size_obj alloc_clipped_address [of s viewport st]
            by (simp add: measure_store_def case_prod_beta snd_measure_after_hook)
          then show ?thesis by blast
        qed
      qed
    qed
  qed
qed

lemma measure_store_frame:
  assumes "\<And>t c st. length st \<le> length (snd (hook t c st)) \<and>
             (\<forall>a<length st. a \<noteq> c \<longrightarrow> lookup (snd (hook t c st)) a = lookup st a)"
  shows "length st \<le> length (snd (measure_store hook this vp st)) \<and>
         (\<forall>a<length st. lookup (snd (measure_store hook this vp st)) a = lookup st a)"
proof -
  have "length st \<le> length (snd (hook this (length st) (snd (alloc_clipped s viewport st)))) \<and>
        (\<forall>a<length st.
           lookup (snd (hook this (length st) (snd (alloc_clipped s viewport st)))) a
             = lookup st a)" for s viewport
    using assms [of "snd (alloc_clipped s viewport st)" this "length st"]
    by (auto simp: alloc_clipped_length alloc_clipped_old)
  then show ?thesis
    using measure_store_alternatives [of hook this vp st] by auto
qed


lemma reading_hook_frame:
  "length st \<le> length (snd (reading_hook m t c st)) \<and>
   (\<forall>a<length st. a \<noteq> c \<longrightarrow> lookup (snd (reading_hook m t c st)) a = lookup st a)"
  by (simp add: reading_hook_def)

lemma init_store_frame: "bbox_at (init_store t st) t = bbox_at st t"
  by (simp add: init_store_def)

lemma measure_store_reading_hook:
  assumes "lookup st this = Some (Elem_obj l)" and "lookup st vp = Some (Size_obj viewport)"
  shows "fst (measure_store (reading_hook m) this vp st) = measure_layout m l viewport"
proof (cases "sizing l")
  case None
  with assms show ?thesis by (simp add: measure_store_def measure_layout_def)
next
  case (Some s)
  define st3 where "st3 = snd (alloc_clipped s viewport st)"
  define wv where "wv = spec_working_viewport s viewport"
  have lt: "this < length st" using assms(1) by (simp add: lookup_def split: if_splits)
  have ac: "alloc_clipped s viewport st = (length st, st3)"
    using alloc_clipped_address [of s viewport st] by (simp add: st3_def prod_eq_iff)
  have el: "lookup st3 this = Some (Elem_obj l)"
    using lt assms(1) by (simp add: st3_def alloc_clipped_old)
  have cl: "lookup st3 (length st) = Some (Size_obj wv)"
    by (simp add: st3_def wv_def alloc_clipped_new)
  have hk: "reading_hook m this (length st) st3 = (m wv, st3)"
    by (simp add: reading_hook_def cl)
  have "measure_store (reading_hook m) this vp st
        = measure_after_hook s this (length st) (m wv, st3)"
    using assms Some by (simp add: measure_store_def ac hk)
  also have "fst \<dots> = measure_sizing s m viewport"
    unfolding measure_sizing_unfold wv_def [symmetric]
    using Some
    by (cases "BoxSizing.width_policy s"; cases "BoxSizing.height_policy s";
        cases "BoxSizing.width s"; cases "BoxSizing.height s")
       (simp_all add: el cl spec_final_size_def spec_final_dimension_def Let_def
          split: sum.splits)
  finally show ?thesis using Some by (simp add: measure_layout_def)
qed

lemma bbox_at_update_other_field:
  "lookup st this = Some (Elem_obj l) \<Longrightarrow> bbox l' = bbox l \<Longrightarrow>
   bbox_at (st[this := Elem_obj l']) this = bbox_at st this"
  by (simp add: bbox_at_def lookup_def split: if_splits)

lemma set_sizing_store_bbox:
  assumes "\<And>t st. bbox_at (init t st) t = bbox_at st t"
  shows "bbox_at (set_sizing_store init this p st) this = bbox_at st this"
proof (cases "lookup st this")
  case None
  then show ?thesis by (simp add: set_sizing_store_def)
next
  case (Some ob)
  then show ?thesis
    by (cases ob) (simp_all add: set_sizing_store_def assms bbox_at_update_other_field)
qed

lemma measure_store_bbox:
  assumes "\<And>t c st. length st \<le> length (snd (hook t c st)) \<and>
             (\<forall>a<length st. a \<noteq> c \<longrightarrow> lookup (snd (hook t c st)) a = lookup st a)"
  shows "bbox_at (snd (measure_store hook this vp st)) this = bbox_at st this"
proof (cases "this < length st")
  case True
  then show ?thesis
    using measure_store_frame [of hook st this vp, OF assms] by (simp add: bbox_at_def)
next
  case False
  then have "lookup st this = None" by (simp add: lookup_def)
  then show ?thesis by (simp add: measure_store_def)
qed


lemma compute_store_reading_hook:
  assumes "lookup st this = Some (Elem_obj l)"
  shows "lookup (snd (compute_store (reading_hook m) this viewport st)) this =
           Some (Elem_obj (case compute m protected_set_geometry viewport l of
                             Inl e \<Rightarrow> l
                           | Inr l' \<Rightarrow> l'))"
proof -
  define v where "v =
     \<lparr>Size.width =
        (case viewport of
           Some p \<Rightarrow> (case PartialSize.width p of Some w \<Rightarrow> w | None \<Rightarrow> PosInf)
         | None \<Rightarrow> PosInf),
      Size.height =
        (case viewport of
           Some p \<Rightarrow> (case PartialSize.height p of Some h \<Rightarrow> h | None \<Rightarrow> PosInf)
         | None \<Rightarrow> PosInf)\<rparr>"
  define st1 where "st1 = st @ [Size_obj v]"
  define r where "r = measure_store (reading_hook m) this (length st) st1"
  have lt: "this < length st" using assms by (simp add: lookup_def split: if_splits)
  have lt1: "this < length st1" using lt by (simp add: st1_def)
  have el: "lookup st1 this = Some (Elem_obj l)"
    using lt assms by (simp add: st1_def lookup_alloc)
  have vp: "lookup st1 (length st) = Some (Size_obj v)"
    by (simp add: st1_def lookup_def)
  have res: "fst r = measure_layout m l v"
    unfolding r_def by (rule measure_store_reading_hook [OF el vp])
  have "\<forall>a<length st1. lookup (snd r) a = lookup st1 a"
    unfolding r_def
    using measure_store_frame [of "reading_hook m" st1 this "length st"] reading_hook_frame
    by blast
  then have el2: "lookup (snd r) this = Some (Elem_obj l)"
    using lt1 el by simp
  then have lt2: "this < length (snd r)" by (simp add: lookup_def split: if_splits)
  have cs: "compute_store (reading_hook m) this viewport st =
        (case r of
           (Inl e, st2) \<Rightarrow> (Inl e, st2)
         | (Inr size_hint, st2) \<Rightarrow>
             (Inr (), set_geometry_store this
                        (BBox_ltwh (Num 0) (Num 0) (Size.width size_hint) (Size.height size_hint))
                        (case inner size_hint of
                           None \<Rightarrow> None
                         | Some mg \<Rightarrow>
                             Some (BBox_ltrb (left mg) (top mg)
                                     (js_sub (Size.width size_hint) (right mg))
                                     (js_sub (Size.height size_hint) (bottom mg))))
                        st2))"
    by (simp add: compute_store_def alloc_def r_def st1_def v_def Let_def
        split: prod.splits sum.splits)
  have cp: "compute m protected_set_geometry viewport l =
        (case fst r of
           Inl e \<Rightarrow> Inl e
         | Inr size_hint \<Rightarrow>
             Inr (set_geometry protected_set_geometry
                    (BBox_ltwh (Num 0) (Num 0) (Size.width size_hint) (Size.height size_hint))
                    (case inner size_hint of
                       None \<Rightarrow> None
                     | Some mg \<Rightarrow>
                         Some (BBox_ltrb (left mg) (top mg)
                                 (js_sub (Size.width size_hint) (right mg))
                                 (js_sub (Size.height size_hint) (bottom mg))))
                    l))"
    by (simp add: compute_def res v_def Let_def split: sum.splits)
  show ?thesis
  proof (cases r)
    case (Pair x st2)
    with el2 lt2 have e: "lookup st2 this = Some (Elem_obj l)" "this < length st2" by simp_all
    show ?thesis
    proof (cases x)
      case (Inl err)
      with Pair e show ?thesis by (simp add: cs cp)
    next
      case (Inr size_hint)
      with Pair e show ?thesis
        by (simp add: cs cp set_geometry_store_def lookup_def)
    qed
  qed
qed

text \<open>
  C5. \<open>measure\<close> does not change the bounding box of the element, nor any other
  state that existed before the call: its assignments go to the clipped viewport, an
  object that \<open>clip_size\<close> has just created, so the element and the viewport of the
  caller are after the call what they were before it. This holds for every element
  whose content-measurement hook keeps to the same rule, that is, changes no object
  that existed before other than the viewport handed to it. Of the public methods only
  \<open>compute\<close> and \<open>set_geometry\<close> change the bounding box, \<open>_init\<close> being a hook
  that leaves the box alone.
\<close>

theorem measure_changes_no_existing_object:
  assumes "\<And>t c st. length st \<le> length (snd (hook t c st)) \<and>
             (\<forall>a<length st. a \<noteq> c \<longrightarrow> lookup (snd (hook t c st)) a = lookup st a)"
    and "\<And>t st. bbox_at (init t st) t = bbox_at st t"
  shows "(\<forall>a<length st. lookup (snd (measure_store hook this vp st)) a = lookup st a) \<and>
         bbox_at (snd (measure_store hook this vp st)) this = bbox_at st this \<and>
         (bbox_at (invoke_store hook init this call st) this \<noteq> bbox_at st this \<longrightarrow>
            (\<exists>v. call = S_compute v) \<or>
            (\<exists>outer inner_box. call = S_set_geometry outer inner_box))"
proof (intro conjI)
  show "\<forall>a<length st. lookup (snd (measure_store hook this vp st)) a = lookup st a"
    using measure_store_frame [of hook st this vp, OF assms(1)] by simp
  show "bbox_at (snd (measure_store hook this vp st)) this = bbox_at st this"
    by (rule measure_store_bbox [OF assms(1)])
  show "bbox_at (invoke_store hook init this call st) this \<noteq> bbox_at st this \<longrightarrow>
          (\<exists>v. call = S_compute v) \<or>
          (\<exists>outer inner_box. call = S_set_geometry outer inner_box)"
  proof (cases call)
    case (S_set_sizing p)
    then show ?thesis by (simp add: set_sizing_store_bbox [OF assms(2)])
  next
    case (S_measure v)
    then show ?thesis by (simp add: measure_store_bbox [OF assms(1)])
  qed simp_all
qed

text \<open>
  On the example store, with the hook of the reference leaf and the empty \<open>_init\<close>:
  \<open>measure\<close> leaves the element and the viewport, puts the clipped viewport, 50 by 40, at
  the next address and returns 50 by 40; the bounding box stays the zero box, and
  \<open>compute\<close> makes it the box of width 50 and height 40.
\<close>

theorem measure_changes_no_existing_object_witness:
  "lookup (snd (measure_store (reading_hook LayoutItem_measure) 0 1 example_store)) 0
     = lookup example_store 0 \<and>
   lookup (snd (measure_store (reading_hook LayoutItem_measure) 0 1 example_store)) 1
     = Some (Size_obj \<lparr>Size.width = Num 120, Size.height = Num 40\<rparr>) \<and>
   lookup (snd (measure_store (reading_hook LayoutItem_measure) 0 1 example_store)) 2
     = Some (Size_obj \<lparr>Size.width = Num 50, Size.height = Num 40\<rparr>) \<and>
   fst (measure_store (reading_hook LayoutItem_measure) 0 1 example_store)
     = Inr \<lparr>Size.width = Num 50, Size.height = Num 40, inner = None\<rparr> \<and>
   bbox_at (invoke_store (reading_hook LayoutItem_measure) init_store 0 (S_measure 1)
              example_store) 0
     = Some (BBox_ltwh (Num 0) (Num 0) (Num 0) (Num 0)) \<and>
   bbox_at (invoke_store (reading_hook LayoutItem_measure) init_store 0
              (S_compute (Some \<lparr>PartialSize.width = Some (Num 120),
                                  PartialSize.height = Some (Num 40)\<rparr>))
              example_store) 0
     = Some (BBox_ltwh (Num 0) (Num 0) (Num 50) (Num 40))"
proof -
  have hf: "\<And>t c st. length st \<le> length (snd (reading_hook LayoutItem_measure t c st)) \<and>
             (\<forall>a<length st. a \<noteq> c \<longrightarrow>
                lookup (snd (reading_hook LayoutItem_measure t c st)) a = lookup st a)"
    by (rule reading_hook_frame)
  have hi: "\<And>t st. bbox_at (init_store t st) t = bbox_at st t"
    by (rule init_store_frame)
  note t = measure_changes_no_existing_object
             [of "reading_hook LayoutItem_measure" init_store example_store 0 1, OF hf hi]
  have len: "length example_store = 2" by (simp add: example_store_def)
  have old: "lookup (snd (measure_store (reading_hook LayoutItem_measure) 0 1 example_store)) 0
               = lookup example_store 0"
       "lookup (snd (measure_store (reading_hook LayoutItem_measure) 0 1 example_store)) 1
               = lookup example_store 1"
    using t [of "S_measure 1"] by (simp_all add: len)
  have bb: "bbox_at (invoke_store (reading_hook LayoutItem_measure) init_store 0 (S_measure 1)
              example_store) 0 = bbox_at example_store 0"
    using t [of "S_measure 1"] by simp
  have ev: "measure_store (reading_hook LayoutItem_measure) 0 1 example_store
        = (Inr \<lparr>Size.width = Num 50, Size.height = Num 40, inner = None\<rparr>,
           example_store @ [Size_obj \<lparr>Size.width = Num 50, Size.height = Num 40\<rparr>])"
    by (simp add: example_store_def measure_store_def alloc_clipped_def alloc_def lookup_def
        set_width_def set_height_def reading_hook_def eval_defs)
  have cp: "bbox_at (invoke_store (reading_hook LayoutItem_measure) init_store 0
              (S_compute (Some \<lparr>PartialSize.width = Some (Num 120),
                                  PartialSize.height = Some (Num 40)\<rparr>))
              example_store) 0
     = Some (BBox_ltwh (Num 0) (Num 0) (Num 50) (Num 40))"
    by (simp add: example_store_def compute_store_def set_geometry_store_def bbox_at_def
        measure_store_def alloc_clipped_def alloc_def lookup_def
        set_width_def set_height_def reading_hook_def eval_defs)
  have c2: "lookup example_store 1
              = Some (Size_obj \<lparr>Size.width = Num 120, Size.height = Num 40\<rparr>)"
    by (simp add: example_store_def lookup_def)
  have c3: "lookup (snd (measure_store (reading_hook LayoutItem_measure) 0 1 example_store)) 2
              = Some (Size_obj \<lparr>Size.width = Num 50, Size.height = Num 40\<rparr>)"
    unfolding ev by (simp add: example_store_def lookup_def)
  have c4: "fst (measure_store (reading_hook LayoutItem_measure) 0 1 example_store)
              = Inr \<lparr>Size.width = Num 50, Size.height = Num 40, inner = None\<rparr>"
    unfolding ev by simp
  have c5: "bbox_at example_store 0 = Some (BBox_ltwh (Num 0) (Num 0) (Num 0) (Num 0))"
    by (simp add: example_store_def lookup_def bbox_at_def new_Layoutable_def)
  from old(1) old(2) [unfolded c2] c3 c4 bb [unfolded c5] cp show ?thesis
    by (intro conjI)
qed

end
